theory Spec2Isabelle
  imports Complex_Main
begin

section \<open>Attitude estimation: a shallow embedding of the filters\<close>

text \<open>
  The Python sources \<^verbatim>\<open>utils/quaternion.py\<close> and \<^verbatim>\<open>utils/kalman_filter.py\<close> are
  embedded over the real numbers: a Python or numpy float is a \<^typ>\<open>real\<close>, so every
  statement below is one of exact real arithmetic. A numpy array of fixed shape is a
  function from its indices (counted from 0) to reals; only the indices inside the
  shape are ever read.
\<close>

subsection \<open>Library functions of \<^verbatim>\<open>math\<close> and \<^verbatim>\<open>numpy\<close>\<close>

datatype error = ZeroDivisionError | LinAlgError | NonFinite

definition radians :: "real \<Rightarrow> real" where
  "radians d = d * pi / 180"

definition degrees :: "real \<Rightarrow> real" where
  "degrees r = r * 180 / pi"

text \<open>\<^verbatim>\<open>math.atan2(y, x)\<close>: the angle of the point \<open>(x, y)\<close>, in \<open>(-pi, pi]\<close>.\<close>

definition atan2 :: "real \<Rightarrow> real \<Rightarrow> real" where
  "atan2 y x =
     (if 0 < x then arctan (y / x)
      else if x < 0 \<and> 0 \<le> y then arctan (y / x) + pi
      else if x < 0 \<and> y < 0 then arctan (y / x) - pi
      else if 0 < y then pi / 2
      else if y < 0 then - (pi / 2)
      else 0)"

text \<open>\<^verbatim>\<open>math.copysign(m, s)\<close>: the magnitude of \<open>m\<close> with the sign of \<open>s\<close>.\<close>

definition copysign :: "real \<Rightarrow> real \<Rightarrow> real" where
  "copysign m s = (if 0 \<le> s then \<bar>m\<bar> else - \<bar>m\<bar>)"

subsection \<open>MadgwickQuaternion\<close>

type_synonym vec = "nat \<Rightarrow> real"
type_synonym euler = "real \<times> real \<times> real"

record madgwick =
  beta :: real
  sample_freq :: real
  sample_period :: real
  q :: vec
  update_count :: nat

text \<open>\<^verbatim>\<open>np.array([w, x, y, z])\<close>.\<close>

definition array4 :: "real \<Rightarrow> real \<Rightarrow> real \<Rightarrow> real \<Rightarrow> vec" where
  "array4 a b c d = (\<lambda>i. if i = 0 then a else if i = 1 then b else if i = 2 then c else d)"

definition madgwick_init :: "real \<Rightarrow> real \<Rightarrow> error + madgwick" where
  "madgwick_init b f =
     (if f = 0 then Inl ZeroDivisionError
      else Inr \<lparr> beta = b, sample_freq = f, sample_period = 1 / f,
                 q = array4 1 0 0 0, update_count = 0 \<rparr>)"

definition get_euler_angles :: "'a madgwick_scheme \<Rightarrow> euler" where
  "get_euler_angles m =
     (let q0 = q m 0; q1 = q m 1; q2 = q m 2; q3 = q m 3;
          sinr_cosp = 2 * (q0 * q1 + q2 * q3);
          cosr_cosp = 1 - 2 * (q1 * q1 + q2 * q2);
          roll = atan2 sinr_cosp cosr_cosp;
          sinp = 2 * (q0 * q2 - q3 * q1);
          pitch = (if \<bar>sinp\<bar> \<ge> 1 then copysign (pi / 2) sinp else arcsin sinp);
          siny_cosp = 2 * (q0 * q3 + q1 * q2);
          cosy_cosp = 1 - 2 * (q2 * q2 + q3 * q3);
          yaw = atan2 siny_cosp cosy_cosp
      in (degrees roll, degrees pitch, degrees yaw))"

text \<open>
  The renormalisation that ends both update paths: \<^verbatim>\<open>norm = math.sqrt(...)\<close>, then
  \<^verbatim>\<open>self.q[i] = qi / norm\<close>. The \<open>qi\<close> are numpy float64 scalars, so a zero \<open>norm\<close>
  does not raise: numpy computes \<open>0/0\<close>, warns, and stores \<open>nan\<close> in all four
  components. A real number cannot be \<open>nan\<close>; the model returns \<open>Inl NonFinite\<close> for
  that outcome.
\<close>

definition renormalize :: "real \<Rightarrow> real \<Rightarrow> real \<Rightarrow> real \<Rightarrow> error + vec" where
  "renormalize q0 q1 q2 q3 =
     (let norm = sqrt (q0 * q0 + q1 * q1 + q2 * q2 + q3 * q3)
      in if norm = 0 then Inl NonFinite
         else Inr (array4 (q0 / norm) (q1 / norm) (q2 / norm) (q3 / norm)))"

definition update_imu_gyro_only ::
  "'a madgwick_scheme \<Rightarrow> real \<Rightarrow> real \<Rightarrow> real \<Rightarrow> real \<Rightarrow> error + ('a madgwick_scheme \<times> euler)" where
  "update_imu_gyro_only m gx gy gz dt =
     (let q0 = q m 0; q1 = q m 1; q2 = q m 2; q3 = q m 3;
          qDot1 = 0.5 * (- q1 * gx - q2 * gy - q3 * gz);
          qDot2 = 0.5 * (q0 * gx + q2 * gz - q3 * gy);
          qDot3 = 0.5 * (q0 * gy - q1 * gz + q3 * gx);
          qDot4 = 0.5 * (q0 * gz + q1 * gy - q2 * gx);
          q0 = q0 + qDot1 * dt;
          q1 = q1 + qDot2 * dt;
          q2 = q2 + qDot3 * dt;
          q3 = q3 + qDot4 * dt
      in case renormalize q0 q1 q2 q3 of
           Inl e \<Rightarrow> Inl e
         | Inr qn \<Rightarrow> (let m' = m\<lparr> q := qn \<rparr> in Inr (m', get_euler_angles m')))"

text \<open>The gradient of the objective function, before its normalisation.\<close>

definition gradient :: "vec \<Rightarrow> real \<Rightarrow> real \<Rightarrow> real \<Rightarrow> real \<times> real \<times> real \<times> real" where
  "gradient qv ax ay az =
     (let q0 = qv 0; q1 = qv 1; q2 = qv 2; q3 = qv 3;
          t2q0 = 2 * q0; t2q1 = 2 * q1; t2q2 = 2 * q2; t2q3 = 2 * q3;
          t4q0 = 4 * q0; t4q1 = 4 * q1; t4q2 = 4 * q2;
          t8q1 = 8 * q1; t8q2 = 8 * q2;
          q0q0 = q0 * q0; q1q1 = q1 * q1; q2q2 = q2 * q2; q3q3 = q3 * q3;
          s0 = t4q0 * q2q2 + t2q2 * ax + t4q0 * q1q1 - t2q1 * ay;
          s1 = t4q1 * q3q3 - t2q3 * ax + 4 * q0q0 * q1 - t2q0 * ay - t4q1
                 + t8q1 * q1q1 + t8q1 * q2q2 + t4q1 * az;
          s2 = 4 * q0q0 * q2 + t2q0 * ax + t4q2 * q3q3 - t2q3 * ay - t4q2
                 + t8q2 * q1q1 + t8q2 * q2q2 + t4q2 * az;
          s3 = 4 * q1q1 * q3 - t2q1 * ax + 4 * q2q2 * q3 - t2q2 * ay
      in (s0, s1, s2, s3))"

definition normalize_gradient :: "real \<times> real \<times> real \<times> real \<Rightarrow> real \<times> real \<times> real \<times> real" where
  "normalize_gradient s =
     (case s of (s0, s1, s2, s3) \<Rightarrow>
        (let norm = sqrt (s0 * s0 + s1 * s1 + s2 * s2 + s3 * s3)
         in if norm > 0 then (s0 / norm, s1 / norm, s2 / norm, s3 / norm)
            else (s0, s1, s2, s3)))"

text \<open>
  \<^verbatim>\<open>MadgwickQuaternion.update\<close>; \<open>dt\<close> is \<open>None\<close> when the caller leaves it out.
\<close>

definition update ::
  "'a madgwick_scheme \<Rightarrow> real \<Rightarrow> real \<Rightarrow> real \<Rightarrow> real \<Rightarrow> real \<Rightarrow> real \<Rightarrow> real option
     \<Rightarrow> error + ('a madgwick_scheme \<times> euler)" where
  "update m accel_x accel_y accel_z gyro_x gyro_y gyro_z dt =
     (let period = (case dt of Some d \<Rightarrow> d | None \<Rightarrow> sample_period m);
          gx = radians gyro_x; gy = radians gyro_y; gz = radians gyro_z;
          norm = sqrt (accel_x * accel_x + accel_y * accel_y + accel_z * accel_z)
      in if norm = 0 then update_imu_gyro_only m gx gy gz period
         else
           (let ax = accel_x / norm; ay = accel_y / norm; az = accel_z / norm;
                q0 = q m 0; q1 = q m 1; q2 = q m 2; q3 = q m 3
            in case normalize_gradient (gradient (q m) ax ay az) of (s0, s1, s2, s3) \<Rightarrow>
              (let qDot1 = 0.5 * (- q1 * gx - q2 * gy - q3 * gz);
                   qDot2 = 0.5 * (q0 * gx + q2 * gz - q3 * gy);
                   qDot3 = 0.5 * (q0 * gy - q1 * gz + q3 * gx);
                   qDot4 = 0.5 * (q0 * gz + q1 * gy - q2 * gx);
                   q0 = q0 + (qDot1 - beta m * s0) * period;
                   q1 = q1 + (qDot2 - beta m * s1) * period;
                   q2 = q2 + (qDot3 - beta m * s2) * period;
                   q3 = q3 + (qDot4 - beta m * s3) * period
               in case renormalize q0 q1 q2 q3 of
                    Inl e \<Rightarrow> Inl e
                  | Inr qn \<Rightarrow>
                      (let m' = m\<lparr> q := qn, update_count := update_count m + 1 \<rparr>
                       in Inr (m', get_euler_angles m')))))"

definition reset :: "'a madgwick_scheme \<Rightarrow> 'a madgwick_scheme" where
  "reset m = m\<lparr> q := array4 1 0 0 0, update_count := 0 \<rparr>"

definition set_beta :: "'a madgwick_scheme \<Rightarrow> real \<Rightarrow> 'a madgwick_scheme" where
  "set_beta m b = m\<lparr> beta := max 0.01 (min 0.5 b) \<rparr>"

subsection \<open>AttitudeCalculator\<close>

record attitude_calculator = madgwick +
  roll :: real
  pitch :: real
  yaw :: real

definition attitude_init :: "real \<Rightarrow> attitude_calculator" where
  "attitude_init alpha =
     (let b = (1 - alpha) * 2;
          b = max 0.033 (min 0.3 b)
      in \<lparr> beta = b, sample_freq = 10, sample_period = 1 / 10,
            q = array4 1 0 0 0, update_count = 0,
            roll = 0, pitch = 0, yaw = 0 \<rparr>)"

definition attitude_update ::
  "attitude_calculator \<Rightarrow> real \<Rightarrow> real \<Rightarrow> real \<Rightarrow> real \<Rightarrow> real \<Rightarrow> real \<Rightarrow> real
     \<Rightarrow> error + (attitude_calculator \<times> euler)" where
  "attitude_update c accel_x accel_y accel_z gyro_x gyro_y gyro_z dt =
     (case update c accel_x accel_y accel_z gyro_x gyro_y gyro_z (Some dt) of
        Inl e \<Rightarrow> Inl e
      | Inr (c', (r, p, y)) \<Rightarrow> Inr (c'\<lparr> roll := r, pitch := p, yaw := y \<rparr>, (r, p, y)))"

subsection \<open>Conversions between Euler angles and quaternions\<close>

definition euler_to_quaternion :: "real \<Rightarrow> real \<Rightarrow> real \<Rightarrow> real \<times> real \<times> real \<times> real" where
  "euler_to_quaternion roll_deg pitch_deg yaw_deg =
     (let roll_rad = radians roll_deg;
          pitch_rad = radians pitch_deg;
          yaw_rad = radians yaw_deg;
          cr = cos (roll_rad * 0.5); sr = sin (roll_rad * 0.5);
          cp = cos (pitch_rad * 0.5); sp = sin (pitch_rad * 0.5);
          cy = cos (yaw_rad * 0.5); sy = sin (yaw_rad * 0.5);
          w = cr * cp * cy + sr * sp * sy;
          x = sr * cp * cy - cr * sp * sy;
          y = cr * sp * cy + sr * cp * sy;
          z = cr * cp * sy - sr * sp * cy
      in (w, x, y, z))"

definition quaternion_to_euler :: "real \<Rightarrow> real \<Rightarrow> real \<Rightarrow> real \<Rightarrow> euler" where
  "quaternion_to_euler w x y z =
     (let sinr_cosp = 2 * (w * x + y * z);
          cosr_cosp = 1 - 2 * (x * x + y * y);
          r = atan2 sinr_cosp cosr_cosp;
          sinp = 2 * (w * y - z * x);
          p = (if \<bar>sinp\<bar> \<ge> 1 then copysign (pi / 2) sinp else arcsin sinp);
          siny_cosp = 2 * (w * z + x * y);
          cosy_cosp = 1 - 2 * (y * y + z * z);
          yw = atan2 siny_cosp cosy_cosp
      in (degrees r, degrees p, degrees yw))"

subsection \<open>Matrices\<close>

type_synonym matrix = "nat \<Rightarrow> nat \<Rightarrow> real"

text \<open>\<^verbatim>\<open>np.eye(n)\<close>, \<^verbatim>\<open>np.zeros\<close>, \<^verbatim>\<open>A * c\<close>, \<^verbatim>\<open>A + B\<close>, \<^verbatim>\<open>A - B\<close>, \<^verbatim>\<open>A.T\<close>.\<close>

definition eye :: "nat \<Rightarrow> matrix" where
  "eye n = (\<lambda>i j. if i = j \<and> i < n then 1 else 0)"

definition zeros :: matrix where
  "zeros = (\<lambda>i j. 0)"

definition smul :: "real \<Rightarrow> matrix \<Rightarrow> matrix" where
  "smul c A = (\<lambda>i j. c * A i j)"

definition madd :: "matrix \<Rightarrow> matrix \<Rightarrow> matrix" where
  "madd A B = (\<lambda>i j. A i j + B i j)"

definition msub :: "matrix \<Rightarrow> matrix \<Rightarrow> matrix" where
  "msub A B = (\<lambda>i j. A i j - B i j)"

definition transpose :: "matrix \<Rightarrow> matrix" where
  "transpose A = (\<lambda>i j. A j i)"

text \<open>\<^verbatim>\<open>A @ B\<close> and \<^verbatim>\<open>A @ v\<close>, where \<open>n\<close> is the number of columns of \<open>A\<close>.\<close>

definition matmul :: "nat \<Rightarrow> matrix \<Rightarrow> matrix \<Rightarrow> matrix" where
  "matmul n A B = (\<lambda>i j. \<Sum>k<n. A i k * B k j)"

definition matvec :: "nat \<Rightarrow> matrix \<Rightarrow> vec \<Rightarrow> vec" where
  "matvec n A v = (\<lambda>i. \<Sum>k<n. A i k * v k)"

text \<open>The slice update \<^verbatim>\<open>M[a:a+3, a:a+3] = B\<close> with a 3 by 3 block \<open>B\<close>.\<close>

definition set_block :: "nat \<Rightarrow> matrix \<Rightarrow> matrix \<Rightarrow> matrix" where
  "set_block a M B =
     (\<lambda>i j. if a \<le> i \<and> i < a + 3 \<and> a \<le> j \<and> j < a + 3 then B (i - a) (j - a) else M i j)"

text \<open>
  \<^verbatim>\<open>np.linalg.inv\<close> raises \<^verbatim>\<open>LinAlgError\<close> on a singular matrix and returns the inverse
  otherwise. The code inverts a 1 by 1 and a 3 by 3 matrix; the inverse is written out
  by cofactors.
\<close>

definition inv1 :: "matrix \<Rightarrow> error + matrix" where
  "inv1 S = (if S 0 0 = 0 then Inl LinAlgError else Inr (\<lambda>i j. 1 / S 0 0))"

definition det3 :: "matrix \<Rightarrow> real" where
  "det3 S = S 0 0 * (S 1 1 * S 2 2 - S 1 2 * S 2 1)
          - S 0 1 * (S 1 0 * S 2 2 - S 1 2 * S 2 0)
          + S 0 2 * (S 1 0 * S 2 1 - S 1 1 * S 2 0)"

definition adj3 :: "matrix \<Rightarrow> matrix" where
  "adj3 S = (\<lambda>i j.
     if i = 0 then
       (if j = 0 then S 1 1 * S 2 2 - S 1 2 * S 2 1
        else if j = 1 then S 0 2 * S 2 1 - S 0 1 * S 2 2
        else S 0 1 * S 1 2 - S 0 2 * S 1 1)
     else if i = 1 then
       (if j = 0 then S 1 2 * S 2 0 - S 1 0 * S 2 2
        else if j = 1 then S 0 0 * S 2 2 - S 0 2 * S 2 0
        else S 0 2 * S 1 0 - S 0 0 * S 1 2)
     else
       (if j = 0 then S 1 0 * S 2 1 - S 1 1 * S 2 0
        else if j = 1 then S 0 1 * S 2 0 - S 0 0 * S 2 1
        else S 0 0 * S 1 1 - S 0 1 * S 1 0))"

definition inv3 :: "matrix \<Rightarrow> error + matrix" where
  "inv3 S = (if det3 S = 0 then Inl LinAlgError else Inr (smul (1 / det3 S) (adj3 S)))"

text \<open>\<^verbatim>\<open>np.std\<close>: the population standard deviation.\<close>

definition np_mean :: "real list \<Rightarrow> real" where
  "np_mean xs = sum_list xs / real (length xs)"

definition np_std :: "real list \<Rightarrow> real" where
  "np_std xs = sqrt (np_mean (map (\<lambda>x. (x - np_mean xs) ^ 2) xs))"

subsection \<open>ExtendedKalmanFilter\<close>

record ekf =
  state :: vec
  P :: matrix
  Q :: matrix
  R_accel :: matrix
  R_mag :: matrix
  gyro_noise :: real
  accel_trust_factor :: real
  mag_trust_factor :: real
  ekf_update_count :: nat

definition ekf_init :: "real \<Rightarrow> real \<Rightarrow> real \<Rightarrow> real \<Rightarrow> ekf" where
  "ekf_init process_noise accel_noise gyro_noise_arg mag_noise =
     (let Q0 = eye 6;
          Q1 = set_block 0 Q0 (smul process_noise (\<lambda>i j. Q0 i j));
          Q2 = set_block 3 Q1 (smul (process_noise * 0.001) (\<lambda>i j. Q1 (i + 3) (j + 3)))
      in \<lparr> state = (\<lambda>i. 0),
            P = smul 1 (eye 6),
            Q = Q2,
            R_accel = smul (accel_noise ^ 2) (eye 3),
            R_mag = smul (mag_noise ^ 2) (eye 1),
            gyro_noise = gyro_noise_arg,
            accel_trust_factor = 1,
            mag_trust_factor = 1,
            ekf_update_count = 0 \<rparr>)"

text \<open>
  \<^verbatim>\<open>_normalize_angle\<close>: two \<^verbatim>\<open>while\<close> loops, one after the other. Over the reals
  both terminate: each pass moves the angle by a full turn towards the interval.
\<close>

function normalize_angle_down :: "real \<Rightarrow> real" where
  "normalize_angle_down angle =
     (if angle > pi then normalize_angle_down (angle - 2 * pi) else angle)"
  by pat_completeness auto
termination
proof (relation "measure (\<lambda>a. nat \<lceil>a / (2 * pi)\<rceil>)")
  show "wf (measure (\<lambda>a. nat \<lceil>a / (2 * pi)\<rceil>))" by simp
next
  fix angle :: real
  assume gt: "pi < angle"
  have e: "(angle - 2 * pi) / (2 * pi) = angle / (2 * pi) - 1"
    by (simp add: field_simps)
  have "0 < angle" using gt pi_gt_zero by linarith
  then have "0 < angle / (2 * pi)" using pi_gt_zero by (intro divide_pos_pos) simp_all
  then have "0 < \<lceil>angle / (2 * pi)\<rceil>" by simp
  then show "(angle - 2 * pi, angle) \<in> measure (\<lambda>a. nat \<lceil>a / (2 * pi)\<rceil>)"
    unfolding in_measure e by simp
qed

function normalize_angle_up :: "real \<Rightarrow> real" where
  "normalize_angle_up angle =
     (if angle < - pi then normalize_angle_up (angle + 2 * pi) else angle)"
  by pat_completeness auto
termination
proof (relation "measure (\<lambda>a. nat \<lceil>- a / (2 * pi)\<rceil>)")
  show "wf (measure (\<lambda>a. nat \<lceil>- a / (2 * pi)\<rceil>))" by simp
next
  fix angle :: real
  assume lt: "angle < - pi"
  have e: "- (angle + 2 * pi) / (2 * pi) = - angle / (2 * pi) - 1"
    by (simp add: field_simps)
  have "0 < - angle" using lt pi_gt_zero by linarith
  then have "0 < - angle / (2 * pi)" using pi_gt_zero by (intro divide_pos_pos) simp_all
  then have "0 < \<lceil>- angle / (2 * pi)\<rceil>" by simp
  then show "(angle + 2 * pi, angle) \<in> measure (\<lambda>a. nat \<lceil>- a / (2 * pi)\<rceil>)"
    unfolding in_measure e by simp
qed

declare normalize_angle_down.simps [simp del] normalize_angle_up.simps [simp del]

definition normalize_angle :: "real \<Rightarrow> real" where
  "normalize_angle angle = normalize_angle_up (normalize_angle_down angle)"

text \<open>The assignment \<^verbatim>\<open>M[i, j] = v\<close> and the arrays of three components.\<close>

definition set_entry :: "matrix \<Rightarrow> nat \<Rightarrow> nat \<Rightarrow> real \<Rightarrow> matrix" where
  "set_entry M i j v = (\<lambda>a b. if a = i \<and> b = j then v else M a b)"

definition array3 :: "real \<Rightarrow> real \<Rightarrow> real \<Rightarrow> vec" where
  "array3 a b c = (\<lambda>i. if i = 0 then a else if i = 1 then b else c)"

definition vadd :: "vec \<Rightarrow> vec \<Rightarrow> vec" where
  "vadd u v = (\<lambda>i. u i + v i)"

definition vsub :: "vec \<Rightarrow> vec \<Rightarrow> vec" where
  "vsub u v = (\<lambda>i. u i - v i)"

text \<open>The guard on \<open>cos pitch\<close> that \<^verbatim>\<open>predict\<close> and the Jacobian share.\<close>

definition guard_cos :: "real \<Rightarrow> real" where
  "guard_cos cos_pitch =
     (if \<bar>cos_pitch\<bar> < 0.01 then (if cos_pitch \<ge> 0 then 0.01 else - 0.01) else cos_pitch)"

definition compute_state_jacobian :: "ekf \<Rightarrow> real \<Rightarrow> real \<Rightarrow> real \<Rightarrow> real \<Rightarrow> matrix" where
  "compute_state_jacobian s gx gy gz dt =
     (let F = eye 6;
          r = state s 0; p = state s 1;
          sin_roll = sin r; cos_roll = cos r;
          sin_pitch = sin p; cos_pitch = guard_cos (cos p); tan_pitch = tan p;
          F = set_entry F 0 0 (1 + dt * (cos_roll * tan_pitch * gy - sin_roll * tan_pitch * gz));
          F = set_entry F 0 1 (dt * (sin_roll / (cos_pitch ^ 2) * gy + cos_roll / (cos_pitch ^ 2) * gz));
          F = set_entry F 1 0 (dt * (- sin_roll * gy - cos_roll * gz));
          F = set_entry F 1 1 1;
          F = set_entry F 2 0 (dt * ((cos_roll / cos_pitch) * gy - (sin_roll / cos_pitch) * gz));
          F = set_entry F 2 1 (dt * (sin_roll * sin_pitch / (cos_pitch ^ 2) * gy
                                      + cos_roll * sin_pitch / (cos_pitch ^ 2) * gz));
          F = set_entry F 2 2 1;
          F = set_entry F 0 3 (- dt);
          F = set_entry F 0 4 (- dt * sin_roll * tan_pitch);
          F = set_entry F 0 5 (- dt * cos_roll * tan_pitch);
          F = set_entry F 1 4 (- dt * cos_roll);
          F = set_entry F 1 5 (dt * sin_roll);
          F = set_entry F 2 4 (- dt * sin_roll / cos_pitch);
          F = set_entry F 2 5 (- dt * cos_roll / cos_pitch)
      in F)"

definition predict :: "ekf \<Rightarrow> real \<Rightarrow> real \<Rightarrow> real \<Rightarrow> real \<Rightarrow> ekf" where
  "predict s gyro_x gyro_y gyro_z dt =
     (let gx = radians gyro_x; gy = radians gyro_y; gz = radians gyro_z;
          r = state s 0; p = state s 1; yw = state s 2;
          bias_x = state s 3; bias_y = state s 4; bias_z = state s 5;
          gx_corrected = gx - bias_x;
          gy_corrected = gy - bias_y;
          gz_corrected = gz - bias_z;
          sin_roll = sin r; cos_roll = cos r;
          cos_pitch = guard_cos (cos p); tan_pitch = tan p;
          droll = gx_corrected + sin_roll * tan_pitch * gy_corrected
                    + cos_roll * tan_pitch * gz_corrected;
          dpitch = cos_roll * gy_corrected - sin_roll * gz_corrected;
          dyaw = (sin_roll / cos_pitch) * gy_corrected + (cos_roll / cos_pitch) * gz_corrected;
          st = state s;
          st = st(0 := st 0 + droll * dt);
          st = st(1 := st 1 + dpitch * dt);
          st = st(2 := st 2 + dyaw * dt);
          st = st(0 := normalize_angle (st 0));
          st = st(1 := normalize_angle (st 1));
          st = st(2 := normalize_angle (st 2));
          s1 = s\<lparr> state := st \<rparr>;
          F = compute_state_jacobian s1 gx_corrected gy_corrected gz_corrected dt
      in s1\<lparr> P := madd (matmul 6 (matmul 6 F (P s1)) (transpose F)) (Q s1) \<rparr>)"

text \<open>
  The trust factor that \<^verbatim>\<open>update_accel\<close> derives from the accelerometer norm, and the
  measurement covariance it then uses: \<^verbatim>\<open>R = self.R_accel.copy()\<close>,
  \<^verbatim>\<open>R *= 1.0 / max(0.1, self.accel_trust_factor)\<close>.
\<close>

definition accel_trust :: "real \<Rightarrow> real" where
  "accel_trust n =
     (let accel_magnitude_error = \<bar>n - 1\<bar>
      in if accel_magnitude_error > 0.5 then 0.3
         else if accel_magnitude_error > 0.2 then 0.7
         else 1)"

definition accel_R :: "ekf \<Rightarrow> matrix" where
  "accel_R s = smul (1 / max 0.1 (accel_trust_factor s)) (R_accel s)"

definition accel_H :: matrix where
  "accel_H = (let H = zeros; H = set_entry H 0 0 1; H = set_entry H 1 1 1 in H)"

text \<open>
  An update that raises leaves the filter as it was at the raise: the result is
  \<open>Inl (e, s')\<close> with the error and that state, or \<open>Inr s'\<close> after a normal return.
\<close>

definition update_accel :: "ekf \<Rightarrow> real \<Rightarrow> real \<Rightarrow> real \<Rightarrow> error \<times> ekf + ekf" where
  "update_accel s accel_x accel_y accel_z =
     (let norm = sqrt (accel_x ^ 2 + accel_y ^ 2 + accel_z ^ 2)
      in if norm < 0.1 then Inr s
         else
           (let ax = accel_x / norm; ay = accel_y / norm; az = accel_z / norm;
                s1 = s\<lparr> accel_trust_factor := accel_trust norm \<rparr>;
                measured_roll = atan2 ay az;
                measured_pitch = atan2 (- ax) (sqrt (ay ^ 2 + az ^ 2));
                z = array3 measured_roll measured_pitch 0;
                h = array3 (state s1 0) (state s1 1) 0;
                y = vsub z h;
                y = y(0 := normalize_angle (y 0));
                y = y(1 := normalize_angle (y 1));
                H = accel_H;
                R = accel_R s1;
                S = madd (matmul 6 (matmul 6 H (P s1)) (transpose H)) R
            in case inv3 S of
                 Inl e \<Rightarrow> Inl (e, s1)
               | Inr Sinv \<Rightarrow>
                   (let K = matmul 3 (matmul 6 (P s1) (transpose H)) Sinv;
                        st = vadd (state s1) (matvec 3 K y);
                        st = st(0 := normalize_angle (st 0));
                        st = st(1 := normalize_angle (st 1));
                        st = st(2 := normalize_angle (st 2))
                    in Inr (s1\<lparr> state := st,
                                 P := matmul 6 (msub (eye 6) (matmul 3 K H)) (P s1) \<rparr>))))"

definition mag_R :: "ekf \<Rightarrow> matrix" where
  "mag_R s = smul (1 / max 0.1 (mag_trust_factor s)) (R_mag s)"

definition mag_H :: matrix where
  "mag_H = set_entry zeros 0 2 1"

definition update_magnetometer :: "ekf \<Rightarrow> real \<Rightarrow> error \<times> ekf + ekf" where
  "update_magnetometer s mag_angle =
     (let measured_yaw = normalize_angle (radians mag_angle);
          y = measured_yaw - state s 2;
          y = normalize_angle y;
          H = mag_H;
          R = mag_R s;
          S = madd (matmul 6 (matmul 6 H (P s)) (transpose H)) R
      in case inv1 S of
           Inl e \<Rightarrow> Inl (e, s)
         | Inr Sinv \<Rightarrow>
             (let K = matmul 1 (matmul 6 (P s) (transpose H)) Sinv;
                  st = vadd (state s) (matvec 1 K (\<lambda>i. y));
                  st = st(0 := normalize_angle (st 0));
                  st = st(1 := normalize_angle (st 1));
                  st = st(2 := normalize_angle (st 2))
              in Inr (s\<lparr> state := st,
                          P := matmul 6 (msub (eye 6) (matmul 1 K H)) (P s) \<rparr>)))"

definition ekf_get_euler_angles :: "ekf \<Rightarrow> euler" where
  "ekf_get_euler_angles s = (degrees (state s 0), degrees (state s 1), degrees (state s 2))"

definition set_mag_trust :: "ekf \<Rightarrow> real \<Rightarrow> ekf" where
  "set_mag_trust s trust_factor = s\<lparr> mag_trust_factor := max 0 (min 1 trust_factor) \<rparr>"

definition set_process_noise :: "ekf \<Rightarrow> real \<Rightarrow> ekf" where
  "set_process_noise s noise_level =
     (let Q1 = set_block 0 (Q s) (smul noise_level (eye 3));
          Q2 = set_block 3 Q1 (smul 0.001 (smul noise_level (eye 3)))
      in s\<lparr> Q := Q2 \<rparr>)"

definition ekf_reset :: "ekf \<Rightarrow> ekf" where
  "ekf_reset s = s\<lparr> state := (\<lambda>i. 0), P := smul 1 (eye 6), ekf_update_count := 0,
                     accel_trust_factor := 1, mag_trust_factor := 1 \<rparr>"

subsection \<open>AdaptiveEKFAttitudeEstimator\<close>

record adaptive =
  ekf :: ekf
  accel_history :: "real list"
  max_history_len :: nat
  adaptive_update_count :: nat

definition adaptive_init :: adaptive where
  "adaptive_init = \<lparr> ekf = ekf_init 0.01 0.1 0.01 0.05, accel_history = [],
                      max_history_len = 10, adaptive_update_count = 0 \<rparr>"

definition adapt_process_noise :: "adaptive \<Rightarrow> real \<Rightarrow> real \<Rightarrow> real \<Rightarrow> adaptive" where
  "adapt_process_noise e ax ay az =
     (let accel_mag = sqrt (ax ^ 2 + ay ^ 2 + az ^ 2);
          hist = accel_history e @ [accel_mag];
          hist = (if length hist > max_history_len e then tl hist else hist);
          e1 = e\<lparr> accel_history := hist \<rparr>
      in if length hist \<ge> 3 then
           (let accel_std = np_std hist;
                noise_level = (if accel_std > 0.3 then 0.05
                               else if accel_std > 0.1 then 0.02
                               else 0.01)
            in e1\<lparr> ekf := set_process_noise (ekf e1) noise_level \<rparr>)
         else e1)"

definition adaptive_update ::
  "adaptive \<Rightarrow> real \<Rightarrow> real \<Rightarrow> real \<Rightarrow> real \<Rightarrow> real \<Rightarrow> real \<Rightarrow> real option \<Rightarrow> bool \<Rightarrow> real
     \<Rightarrow> error \<times> adaptive + adaptive \<times> euler" where
  "adaptive_update e accel_x accel_y accel_z gyro_x gyro_y gyro_z mag_angle mag_valid dt =
     (let s = predict (ekf e) gyro_x gyro_y gyro_z dt
      in case update_accel s accel_x accel_y accel_z of
           Inl (err, s') \<Rightarrow> Inl (err, e\<lparr> ekf := s' \<rparr>)
         | Inr s1 \<Rightarrow>
             (case (if mag_valid \<and> mag_angle \<noteq> None
                    then update_magnetometer s1 (the mag_angle) else Inr s1) of
                Inl (err, s') \<Rightarrow> Inl (err, e\<lparr> ekf := s' \<rparr>)
              | Inr s2 \<Rightarrow>
                  (let e1 = adapt_process_noise (e\<lparr> ekf := s2 \<rparr>) accel_x accel_y accel_z;
                       e2 = e1\<lparr> adaptive_update_count := adaptive_update_count e1 + 1 \<rparr>
                   in Inr (e2, ekf_get_euler_angles (ekf e2)))))"

subsection \<open>Drivers\<close>

text \<open>
  A sequence of \<^verbatim>\<open>MadgwickQuaternion.update\<close> calls on one filter, each sample being
  \<open>(accel_x, accel_y, accel_z, gyro_x, gyro_y, gyro_z, dt)\<close>. Once the quaternion is
  \<open>nan\<close> every later call keeps it so.
\<close>

type_synonym sample = "real \<times> real \<times> real \<times> real \<times> real \<times> real \<times> real option"

fun update_all :: "madgwick \<Rightarrow> sample list \<Rightarrow> error + madgwick" where
  "update_all m [] = Inr m"
| "update_all m ((ax, ay, az, gx, gy, gz, dt) # rest) =
     (case update m ax ay az gx gy gz dt of
        Inl e \<Rightarrow> Inl e
      | Inr (m', angles) \<Rightarrow> update_all m' rest)"

text \<open>The squared norm of a quaternion.\<close>

definition norm_sq :: "vec \<Rightarrow> real" where
  "norm_sq v = v 0 * v 0 + v 1 * v 1 + v 2 * v 2 + v 3 * v 3"

text \<open>The filter as a call leaves it, whether the call returned or raised.\<close>

definition final_state :: "error \<times> ekf + ekf \<Rightarrow> ekf" where
  "final_state r = (case r of Inl (e, s) \<Rightarrow> s | Inr s \<Rightarrow> s)"

subsection \<open>Symmetric positive semi-definite matrices\<close>

text \<open>
  The predicates of the covariance invariant, for an \<open>n\<close> by \<open>n\<close> matrix: symmetry, and
  a quadratic form \<open>x\<^sup>T A x\<close> that is nowhere negative.
\<close>

definition dot :: "nat \<Rightarrow> vec \<Rightarrow> vec \<Rightarrow> real" where
  "dot n u v = (\<Sum>i<n. u i * v i)"





section \<open>Properties\<close>

subsection \<open>The Madgwick renormalisation\<close>

lemma array4_nth:
  "array4 a b c d 0 = a" "array4 a b c d (Suc 0) = b" "array4 a b c d 1 = b"
  "array4 a b c d 2 = c" "array4 a b c d 3 = d"
  by (simp_all add: array4_def)

text \<open>
  Whenever a call returns a quaternion it has norm 1, and from a unit quaternion the
  gyro-only path always returns: its norm before the division is at least 1.
\<close>

lemma renormalize_unit:
  assumes "renormalize a b c d = Inr v"
  shows "norm_sq v = 1"
proof -
  let ?n = "sqrt (a * a + b * b + c * c + d * d)"
  have n: "?n \<noteq> 0" and v: "v = array4 (a / ?n) (b / ?n) (c / ?n) (d / ?n)"
    using assms by (auto simp add: renormalize_def Let_def split: if_splits)
  have nn: "0 \<le> a * a + b * b + c * c + d * d" by simp
  have sq: "?n * ?n = a * a + b * b + c * c + d * d"
    using nn by (simp only: real_sqrt_mult_self abs_of_nonneg)
  have "norm_sq v = (a * a + b * b + c * c + d * d) / (?n * ?n)"
    unfolding v norm_sq_def array4_nth by (simp only: times_divide_times_eq add_divide_distrib)
  then show ?thesis using n unfolding sq by simp
qed

lemma update_keeps_unit_norm:
  assumes "update m ax ay az gx gy gz dt = Inr (m', angles)"
  shows "norm_sq (q m') = 1"
  using assms
  by (auto simp add: update_def update_imu_gyro_only_def Let_def renormalize_unit
      split: if_splits sum.splits prod.splits)

lemma gyro_only_norm:
  fixes q0 q1 q2 q3 gx gy gz dt :: real
  shows "(q0 + 0.5 * (- q1 * gx - q2 * gy - q3 * gz) * dt) * (q0 + 0.5 * (- q1 * gx - q2 * gy - q3 * gz) * dt)
       + (q1 + 0.5 * (q0 * gx + q2 * gz - q3 * gy) * dt) * (q1 + 0.5 * (q0 * gx + q2 * gz - q3 * gy) * dt)
       + (q2 + 0.5 * (q0 * gy - q1 * gz + q3 * gx) * dt) * (q2 + 0.5 * (q0 * gy - q1 * gz + q3 * gx) * dt)
       + (q3 + 0.5 * (q0 * gz + q1 * gy - q2 * gx) * dt) * (q3 + 0.5 * (q0 * gz + q1 * gy - q2 * gx) * dt)
       = (q0 * q0 + q1 * q1 + q2 * q2 + q3 * q3) * (1 + (dt * dt / 4) * (gx * gx + gy * gy + gz * gz))"
  by (simp add: field_simps)

lemma gyro_only_returns:
  assumes "norm_sq (q m) = 1"
  shows "\<exists>r. update_imu_gyro_only m gx gy gz dt = Inr r"
proof -
  have u: "q m 0 * q m 0 + q m 1 * q m 1 + q m 2 * q m 2 + q m 3 * q m 3 = 1"
    using assms by (simp add: norm_sq_def)
  have "0 \<le> (dt * dt / 4) * (gx * gx + gy * gy + gz * gz)"
    by (intro mult_nonneg_nonneg) simp_all
  then have "0 < 1 + (dt * dt / 4) * (gx * gx + gy * gy + gz * gz)" by linarith
  then have nz: "sqrt (1 * (1 + (dt * dt / 4) * (gx * gx + gy * gy + gz * gz))) \<noteq> 0"
    by simp
  obtain v where v:
    "renormalize (q m 0 + 0.5 * (- q m 1 * gx - q m 2 * gy - q m 3 * gz) * dt)
       (q m 1 + 0.5 * (q m 0 * gx + q m 2 * gz - q m 3 * gy) * dt)
       (q m 2 + 0.5 * (q m 0 * gy - q m 1 * gz + q m 3 * gx) * dt)
       (q m 3 + 0.5 * (q m 0 * gz + q m 1 * gy - q m 2 * gx) * dt) = Inr v"
    unfolding renormalize_def Let_def gyro_only_norm u using nz by (simp del: mult_1_left)
  show ?thesis
    unfolding update_imu_gyro_only_def Let_def v by (simp del: split_paired_Ex)
qed

lemma renormalize_zero: "renormalize 0 0 0 0 = Inl NonFinite"
  by (simp add: renormalize_def)

lemma gradient_flipped: "gradient (array4 0 1 0 0) 0 0 1 = (0, 8, 0, 0)"
  by (simp add: gradient_def array4_nth Let_def)

lemma normalize_gradient_flipped: "normalize_gradient (0, 8, 0, 0) = (0, 1, 0, 0)"
  by (simp add: normalize_gradient_def Let_def)

lemma update_flipped:
  assumes b: "beta m = 1 / 10" and qm: "q m = array4 0 1 0 0"
  shows "update m 0 0 1 0 0 0 (Some 10) = Inl NonFinite"
  by (simp add: update_def Let_def b qm gradient_flipped normalize_gradient_flipped
      radians_def array4_nth renormalize_zero)

text \<open>
  C1. The claim says that the renormalisation after the correction step is guarded:
  a zero norm leaves \<open>q\<close> unchanged and no non-finite quaternion arises. The code divides
  without a guard. At the unit quaternion \<open>(0, 1, 0, 0)\<close> with \<open>beta = 0.1\<close>, the sample
  accel \<open>(0, 0, 1)\<close>, gyro \<open>(0, 0, 0)\<close>, \<open>dt = 10\<close> gives the normalised gradient
  \<open>(0, 1, 0, 0)\<close>, the corrected quaternion \<open>(0, 0, 0, 0)\<close> and the division \<open>0 / 0\<close>.
\<close>

theorem update_divides_by_zero_norm:
  "update \<lparr> beta = 1 / 10, sample_freq = 10, sample_period = 1 / 10,
             q = array4 0 1 0 0, update_count = 0 \<rparr> 0 0 1 0 0 0 (Some 10) = Inl NonFinite"
  by (rule update_flipped) simp_all

lemma update_gyro_quarter_turn:
  "update m 0 0 0 (360 / pi) 0 0 (Some 1) =
     (case renormalize (q m 0 - q m 1) (q m 1 + q m 0) (q m 2 + q m 3) (q m 3 - q m 2) of
        Inl e \<Rightarrow> Inl e
      | Inr qn \<Rightarrow> Inr (m\<lparr>q := qn\<rparr>, get_euler_angles (m\<lparr>q := qn\<rparr>)))"
  by (simp add: update_def update_imu_gyro_only_def Let_def radians_def split: sum.splits)

lemma renormalize_first: "renormalize 1 1 0 0 = Inr (array4 (1 / sqrt 2) (1 / sqrt 2) 0 0)"
  by (simp add: renormalize_def Let_def)

lemma renormalize_second: "renormalize 0 (2 / sqrt 2) 0 0 = Inr (array4 0 1 0 0)"
  by (simp add: renormalize_def Let_def)

text \<open>
  C3. The claim says that the stored quaternion has norm 1 after every call of every
  sequence of calls from the reset state. Three calls from the reset state of the
  default filter (\<open>beta = 0.1\<close>) end in the division \<open>0 / 0\<close> of C1: two gyro-only
  calls (zero accelerometer) that each turn by \<open>gx * dt = 2\<close> radians in the first-order
  integration reach \<open>(0, 1, 0, 0)\<close>, and the third call is the one of C1.
\<close>

theorem update_sequence_loses_unit_norm:
  "(case madgwick_init (1 / 10) 10 of
      Inl e \<Rightarrow> Inl e
    | Inr m \<Rightarrow> update_all (reset m)
        [(0, 0, 0, 360 / pi, 0, 0, Some 1),
         (0, 0, 0, 360 / pi, 0, 0, Some 1),
         (0, 0, 1, 0, 0, 0, Some 10)]) = Inl NonFinite"
  by (simp add: madgwick_init_def reset_def update_gyro_quarter_turn array4_nth
      renormalize_first renormalize_second update_flipped)

subsection \<open>Angle normalisation\<close>








subsection \<open>The accelerometer update\<close>

text \<open>
  C5. An accelerometer vector of norm below 0.1 makes \<^verbatim>\<open>update_accel\<close> return at once:
  no error, and the filter, with all its attributes, is the one before the call.
\<close>

theorem update_accel_rejects_small:
  "sqrt (accel_x ^ 2 + accel_y ^ 2 + accel_z ^ 2) < 0.1 \<Longrightarrow>
     update_accel s accel_x accel_y accel_z = Inr s"
  by (simp add: update_accel_def Let_def)

theorem update_accel_rejects_small_witness:
  "sqrt (0 ^ 2 + 0 ^ 2 + 0 ^ 2) < (0.1 :: real)
     \<and> update_accel (ekf_init 0.01 0.1 0.01 0.05) 0 0 0 = Inr (ekf_init 0.01 0.1 0.01 0.05)"
  using update_accel_rejects_small [of 0 0 0 "ekf_init 0.01 0.1 0.01 0.05"] by simp




subsection \<open>Configuration setters\<close>

lemma set_mag_trust_clamps:
  "0 \<le> mag_trust_factor (set_mag_trust s t) \<and> mag_trust_factor (set_mag_trust s t) \<le> 1
   \<and> (0 \<le> t \<and> t \<le> 1 \<longrightarrow> mag_trust_factor (set_mag_trust s t) = t)
   \<and> (t < 0 \<longrightarrow> mag_trust_factor (set_mag_trust s t) = 0)
   \<and> (1 < t \<longrightarrow> mag_trust_factor (set_mag_trust s t) = 1)"
  by (auto simp add: set_mag_trust_def)

lemma set_beta_clamps:
  "0.01 \<le> beta (set_beta m b) \<and> beta (set_beta m b) \<le> 0.5
   \<and> (0.01 \<le> b \<and> b \<le> 0.5 \<longrightarrow> beta (set_beta m b) = b)
   \<and> (b < 0.01 \<longrightarrow> beta (set_beta m b) = 0.01)
   \<and> (0.5 < b \<longrightarrow> beta (set_beta m b) = 0.5)"
  by (auto simp add: set_beta_def)

text \<open>
  C6. The claim says that every setter clamps. \<^verbatim>\<open>set_mag_trust\<close> and \<^verbatim>\<open>set_beta\<close> do
  (the two lemmas above); \<^verbatim>\<open>set_process_noise\<close> writes the level as given: the level 2,
  above the documented range 0.001 to 1.0, is stored as 2 in the attitude block and as
  0.002 in the bias block.
\<close>

theorem set_process_noise_unclamped:
  "Q (set_process_noise s 2) 0 0 = 2 \<and> Q (set_process_noise s 2) 3 3 = 2 / 1000"
  by (simp add: set_process_noise_def Let_def set_block_def smul_def eye_def)

subsection \<open>AttitudeCalculator against MadgwickQuaternion\<close>

text \<open>
  \<^verbatim>\<open>MadgwickQuaternion.update\<close> reads and writes only the fields of the base class, so
  running it on the base part of a subclass object gives the base part of the result.
\<close>

lemma truncate_fields:
  "q (madgwick.truncate c) = q c" "beta (madgwick.truncate c) = beta c"
  "sample_period (madgwick.truncate c) = sample_period c"
  "update_count (madgwick.truncate c) = update_count c"
  by (simp_all add: madgwick.truncate_def)

lemma truncate_updates:
  "madgwick.truncate (c\<lparr>q := v\<rparr>) = (madgwick.truncate c)\<lparr>q := v\<rparr>"
  "madgwick.truncate (c\<lparr>update_count := n\<rparr>) = (madgwick.truncate c)\<lparr>update_count := n\<rparr>"
  by (simp_all add: madgwick.truncate_def)

lemma get_euler_angles_truncate: "get_euler_angles (madgwick.truncate c) = get_euler_angles c"
  by (simp add: get_euler_angles_def truncate_fields)

lemma update_imu_gyro_only_truncate:
  "update_imu_gyro_only (madgwick.truncate c) gx gy gz dt
     = map_sum id (map_prod madgwick.truncate id) (update_imu_gyro_only c gx gy gz dt)"
  by (simp add: update_imu_gyro_only_def Let_def truncate_fields truncate_updates [symmetric]
      get_euler_angles_truncate split: sum.splits)

lemma update_truncate:
  "update (madgwick.truncate c) ax ay az gx gy gz dt
     = map_sum id (map_prod madgwick.truncate id) (update c ax ay az gx gy gz dt)"
proof -
  have p: "(case dt of Some d \<Rightarrow> d | None \<Rightarrow> sample_period (madgwick.truncate c))
             = (case dt of Some d \<Rightarrow> d | None \<Rightarrow> sample_period c)"
    by (simp add: truncate_fields split: option.splits)
  show ?thesis
    unfolding update_def p
    by (simp add: Let_def update_imu_gyro_only_truncate truncate_fields
        truncate_updates [symmetric] get_euler_angles_truncate split: sum.splits prod.splits)
qed

text \<open>
  C10. The constructor sets \<open>beta = min 0.3 (max 0.033 (2 * (1 - alpha)))\<close>, and
  \<^verbatim>\<open>AttitudeCalculator.update\<close> agrees with \<^verbatim>\<open>MadgwickQuaternion.update\<close> on the same
  Madgwick state and inputs: the same failure, or the same new Madgwick state and the
  same triple, which it also stores in \<open>roll\<close>, \<open>pitch\<close>, \<open>yaw\<close>.
\<close>

theorem attitude_calculator_refines:
  "beta (attitude_init alpha) = min 0.3 (max 0.033 (2 * (1 - alpha)))
   \<and> (case update (madgwick.truncate c) ax ay az gx gy gz (Some dt) of
        Inl e \<Rightarrow> attitude_update c ax ay az gx gy gz dt = Inl e
      | Inr (m', angles) \<Rightarrow>
          (\<exists>c'. attitude_update c ax ay az gx gy gz dt = Inr (c', angles)
                \<and> madgwick.truncate c' = m'
                \<and> (roll c', pitch c', yaw c') = angles))"
proof -
  have b: "beta (attitude_init alpha) = min 0.3 (max 0.033 (2 * (1 - alpha)))"
    by (simp add: attitude_init_def Let_def min_def max_def)
  have u: "(case update (madgwick.truncate c) ax ay az gx gy gz (Some dt) of
        Inl e \<Rightarrow> attitude_update c ax ay az gx gy gz dt = Inl e
      | Inr (m', angles) \<Rightarrow>
          (\<exists>c'. attitude_update c ax ay az gx gy gz dt = Inr (c', angles)
                \<and> madgwick.truncate c' = m'
                \<and> (roll c', pitch c', yaw c') = angles))"
  proof (cases "update c ax ay az gx gy gz (Some dt)")
    case (Inl e)
    then show ?thesis by (simp add: update_truncate attitude_update_def)
  next
    case (Inr r)
    obtain c1 ro pt ya where r: "r = (c1, ro, pt, ya)" by (cases r) auto
    show ?thesis
      using Inr r
      by (simp add: update_truncate attitude_update_def) (simp add: madgwick.truncate_def)
  qed
  from b u show ?thesis by blast
qed

subsection \<open>Adaptive process noise\<close>

lemma predict_Q: "Q (predict s gx gy gz dt) = Q s"
  by (simp add: predict_def Let_def)

lemma update_accel_Q: "update_accel s ax ay az = Inr s' \<Longrightarrow> Q s' = Q s"
  by (auto simp add: update_accel_def Let_def split: if_splits sum.splits)

lemma update_magnetometer_Q: "update_magnetometer s a = Inr s' \<Longrightarrow> Q s' = Q s"
  by (auto simp add: update_magnetometer_def Let_def split: if_splits sum.splits)

lemma set_process_noise_Q:
  "Q s = Q s' \<Longrightarrow> Q (set_process_noise s l) = Q (set_process_noise s' l)"
  by (simp add: set_process_noise_def Let_def)

lemma adapt_history:
  assumes "length (accel_history e) \<le> 10" and "max_history_len e = 10"
  shows "accel_history (adapt_process_noise e ax ay az)
           = drop (length (accel_history e) + 1 - 10) (accel_history e @ [sqrt (ax ^ 2 + ay ^ 2 + az ^ 2)])"
proof (cases "length (accel_history e) = 10")
  case True
  then obtain a as where h: "accel_history e = a # as" by (cases "accel_history e") auto
  with True have "length as = 9" by simp
  then show ?thesis using assms h
    by (simp add: adapt_process_noise_def Let_def)
next
  case False
  then show ?thesis using assms
    by (simp add: adapt_process_noise_def Let_def)
qed

lemma adapt_ekf:
  "ekf (adapt_process_noise e ax ay az) =
     (let w = accel_history (adapt_process_noise e ax ay az)
      in if length w \<ge> 3
         then set_process_noise (ekf e)
                (if np_std w > 0.3 then 0.05 else if np_std w > 0.1 then 0.02 else 0.01)
         else ekf e)"
  by (simp add: adapt_process_noise_def Let_def)

lemma adapt_count:
  "adaptive_update_count (adapt_process_noise e ax ay az) = adaptive_update_count e"
  by (simp add: adapt_process_noise_def Let_def)

lemma adaptive_update_Inr:
  assumes "adaptive_update e ax ay az gx gy gz mag_angle mag_valid dt = Inr (e', angles)"
  shows "\<exists>s2. Q s2 = Q (ekf e) \<and>
           e' = (adapt_process_noise (e\<lparr>ekf := s2\<rparr>) ax ay az)
                  \<lparr>adaptive_update_count := adaptive_update_count e + 1\<rparr>"
proof -
  obtain s1 where s1: "update_accel (predict (ekf e) gx gy gz dt) ax ay az = Inr s1"
    using assms by (auto simp add: adaptive_update_def Let_def split: sum.splits)
  obtain s2 where s2: "(if mag_valid \<and> mag_angle \<noteq> None
                    then update_magnetometer s1 (the mag_angle) else Inr s1) = Inr s2"
    using assms s1 by (auto simp add: adaptive_update_def Let_def split: sum.splits)
  have q: "Q s2 = Q (ekf e)"
    using s2 update_magnetometer_Q [of s1 "the mag_angle" s2] update_accel_Q [OF s1] predict_Q
    by (auto split: if_splits)
  have "e' = (adapt_process_noise (e\<lparr>ekf := s2\<rparr>) ax ay az)
                  \<lparr>adaptive_update_count := adaptive_update_count e + 1\<rparr>"
    using assms s1 s2 by (auto simp add: adaptive_update_def Let_def adapt_count)
  with q show ?thesis by blast
qed

text \<open>
  C9. A call of \<^verbatim>\<open>AdaptiveEKFAttitudeEstimator.update\<close> that returns appends the
  accelerometer magnitude and keeps the last 10 entries; with at least 3 entries it
  sets the process noise from their standard deviation (above 0.3: 0.05, above 0.1:
  0.02, otherwise 0.01), and with fewer it leaves \<open>Q\<close> as it was.
\<close>

theorem adaptive_window_and_noise:
  assumes len: "length (accel_history e) \<le> 10" and mx: "max_history_len e = 10"
    and ret: "adaptive_update e ax ay az gx gy gz mag_angle mag_valid dt = Inr (e', angles)"
  shows "accel_history e'
           = drop (length (accel_history e) + 1 - 10)
               (accel_history e @ [sqrt (ax ^ 2 + ay ^ 2 + az ^ 2)])
       \<and> length (accel_history e') \<le> 10
       \<and> (if length (accel_history e') \<ge> 3
          then Q (ekf e') = Q (set_process_noise (ekf e)
                 (if np_std (accel_history e') > 0.3 then 0.05
                  else if np_std (accel_history e') > 0.1 then 0.02 else 0.01))
          else Q (ekf e') = Q (ekf e))"
proof -
  obtain s2 where q: "Q s2 = Q (ekf e)"
    and e': "e' = (adapt_process_noise (e\<lparr>ekf := s2\<rparr>) ax ay az)
                  \<lparr>adaptive_update_count := adaptive_update_count e + 1\<rparr>"
    using adaptive_update_Inr [OF ret] by blast
  have h: "accel_history e'
           = drop (length (accel_history e) + 1 - 10)
               (accel_history e @ [sqrt (ax ^ 2 + ay ^ 2 + az ^ 2)])"
    using adapt_history [of "e\<lparr>ekf := s2\<rparr>" ax ay az] len mx e' by simp
  have l: "length (accel_history e') \<le> 10"
    unfolding h using len by simp
  have k: "ekf e' = (let w = accel_history e'
      in if length w \<ge> 3
         then set_process_noise s2
                (if np_std w > 0.3 then 0.05 else if np_std w > 0.1 then 0.02 else 0.01)
         else s2)"
    using adapt_ekf [of "e\<lparr>ekf := s2\<rparr>" ax ay az] e' by (simp add: Let_def)
  have n: "(if length (accel_history e') \<ge> 3
          then Q (ekf e') = Q (set_process_noise (ekf e)
                 (if np_std (accel_history e') > 0.3 then 0.05
                  else if np_std (accel_history e') > 0.1 then 0.02 else 0.01))
          else Q (ekf e') = Q (ekf e))"
    using k q set_process_noise_Q [OF q] by (simp add: Let_def)
  from h l n show ?thesis by blast
qed

text \<open>
  With two magnitudes 1 buffered and a zero accelerometer sample the window is
  \<open>[1, 1, 0]\<close>, of standard deviation \<open>sqrt (2 / 9) > 0.3\<close>: the level is 0.05.
\<close>

theorem adaptive_window_and_noise_witness:
  "length (accel_history (adaptive_init\<lparr>accel_history := [1, 1]\<rparr>)) \<le> 10
   \<and> max_history_len (adaptive_init\<lparr>accel_history := [1, 1]\<rparr>) = 10
   \<and> (\<exists>e' angles.
         adaptive_update (adaptive_init\<lparr>accel_history := [1, 1]\<rparr>) 0 0 0 0 0 0 None False (1 / 10)
           = Inr (e', angles)
         \<and> accel_history e' = [1, 1, 0] \<and> Q (ekf e') 0 0 = 0.05 \<and> Q (ekf e') 3 3 = 0.00005)"
proof -
  let ?e = "adaptive_init\<lparr>accel_history := [1, 1]\<rparr>"
  have len: "length (accel_history ?e) \<le> 10" and mx: "max_history_len ?e = 10"
    by (simp_all add: adaptive_init_def)
  obtain e' angles where
    ret: "adaptive_update ?e 0 0 0 0 0 0 None False (1 / 10) = Inr (e', angles)"
    by (simp add: adaptive_update_def update_accel_def Let_def)
  have std: "np_std [1, 1, 0] = sqrt (2 / 9)"
    by (simp add: np_std_def np_mean_def power2_eq_square)
  have big: "3 / 10 < sqrt (2 / 9)"
    by (rule real_less_rsqrt) (simp add: power2_eq_square)
  have h: "accel_history e' = [1, 1, 0]"
    using adaptive_window_and_noise [OF len mx ret] by (simp add: adaptive_init_def)
  have "Q (ekf e') = Q (set_process_noise (ekf ?e) 0.05)"
    using adaptive_window_and_noise [OF len mx ret] h std big by simp
  then have "Q (ekf e') 0 0 = 0.05 \<and> Q (ekf e') 3 3 = 0.00005"
    by (simp add: set_process_noise_def Let_def set_block_def smul_def eye_def)
  with len mx ret h show ?thesis by blast
qed

subsection \<open>Euler angles to quaternion and back\<close>

lemma atan2_polar:
  assumes c: "0 < c" and lo: "- pi < r" and hi: "r \<le> pi"
  shows "atan2 (c * sin r) (c * cos r) = r"
proof -
  have quot: "c * sin r / (c * cos r) = sin r / cos r" using c by simp
  consider (a) "r < - (pi / 2)" | (b) "r = - (pi / 2)" | (m) "- (pi / 2) < r \<and> r < pi / 2"
    | (d) "r = pi / 2" | (e) "pi / 2 < r"
    by linarith
  then show ?thesis
  proof cases
    case m
    then have "0 < cos r" by (simp add: cos_gt_zero_pi)
    then have x: "0 < c * cos r" using c by simp
    have "arctan (sin r / cos r) = r"
      using m by (intro arctan_unique) (simp_all add: tan_def)
    with x c show ?thesis by (simp add: atan2_def)
  next
    case e
    have "0 < cos (r - pi)" using e hi by (intro cos_gt_zero_pi) linarith+
    then have cn: "cos r < 0" by simp
    have "0 \<le> sin r" using e hi pi_gt_zero by (intro sin_ge_zero) linarith+
    then have s: "0 \<le> c * sin r" using c by simp
    have x: "c * cos r < 0" using c cn by (simp add: mult_pos_neg)
    have "tan (r - pi) = sin r / cos r" by (simp add: tan_def)
    then have "arctan (sin r / cos r) = r - pi"
      using e hi by (intro arctan_unique) linarith+
    with x s c show ?thesis by (simp add: atan2_def)
  next
    case a
    have "0 < cos (r + pi)" using a lo by (intro cos_gt_zero_pi) linarith+
    then have cn: "cos r < 0" by simp
    have "0 < sin (r + pi)" using a lo pi_gt_zero by (intro sin_gt_zero) linarith+
    then have "sin r < 0" by simp
    then have s: "c * sin r < 0" using c by (simp add: mult_pos_neg)
    have x: "c * cos r < 0" using c cn by (simp add: mult_pos_neg)
    have "tan (r + pi) = sin r / cos r" by (simp add: tan_def)
    then have "arctan (sin r / cos r) = r + pi"
      using a lo by (intro arctan_unique) linarith+
    with x s c show ?thesis by (simp add: atan2_def)
  next
    case b
    show ?thesis unfolding b using c by (simp add: atan2_def)
  next
    case d
    show ?thesis unfolding d using c by (simp add: atan2_def)
  qed
qed

lemma half_angle_products:
  fixes cr sr cp sp cy sy :: real
  assumes r: "cr\<^sup>2 + sr\<^sup>2 = 1" and p: "cp\<^sup>2 + sp\<^sup>2 = 1" and y: "cy\<^sup>2 + sy\<^sup>2 = 1"
  shows "2 * ((cr * cp * cy + sr * sp * sy) * (sr * cp * cy - cr * sp * sy)
            + (cr * sp * cy + sr * cp * sy) * (cr * cp * sy - sr * sp * cy))
           = (2 * sr * cr) * (cp\<^sup>2 - sp\<^sup>2)"
    and "1 - 2 * ((sr * cp * cy - cr * sp * sy) * (sr * cp * cy - cr * sp * sy)
            + (cr * sp * cy + sr * cp * sy) * (cr * sp * cy + sr * cp * sy))
           = (cr\<^sup>2 - sr\<^sup>2) * (cp\<^sup>2 - sp\<^sup>2)"
    and "2 * ((cr * cp * cy + sr * sp * sy) * (cr * sp * cy + sr * cp * sy)
            - (cr * cp * sy - sr * sp * cy) * (sr * cp * cy - cr * sp * sy))
           = 2 * sp * cp"
    and "2 * ((cr * cp * cy + sr * sp * sy) * (cr * cp * sy - sr * sp * cy)
            + (sr * cp * cy - cr * sp * sy) * (cr * sp * cy + sr * cp * sy))
           = (2 * sy * cy) * (cp\<^sup>2 - sp\<^sup>2)"
    and "1 - 2 * ((cr * sp * cy + sr * cp * sy) * (cr * sp * cy + sr * cp * sy)
            + (cr * cp * sy - sr * sp * cy) * (cr * cp * sy - sr * sp * cy))
           = (cy\<^sup>2 - sy\<^sup>2) * (cp\<^sup>2 - sp\<^sup>2)"
  using assms by algebra+


lemma degrees_radians: "degrees (radians d) = d"
  by (simp add: degrees_def radians_def)

lemma quaternion_to_euler_of_half_angles:
  assumes rr: "- pi < rr" "rr \<le> pi" and pp: "- (pi / 2) < pp" "pp < pi / 2"
    and yy: "- pi < yy" "yy \<le> pi"
  shows "quaternion_to_euler
           (cos (rr / 2) * cos (pp / 2) * cos (yy / 2) + sin (rr / 2) * sin (pp / 2) * sin (yy / 2))
           (sin (rr / 2) * cos (pp / 2) * cos (yy / 2) - cos (rr / 2) * sin (pp / 2) * sin (yy / 2))
           (cos (rr / 2) * sin (pp / 2) * cos (yy / 2) + sin (rr / 2) * cos (pp / 2) * sin (yy / 2))
           (cos (rr / 2) * cos (pp / 2) * sin (yy / 2) - sin (rr / 2) * sin (pp / 2) * cos (yy / 2))
         = (degrees rr, degrees pp, degrees yy)"
proof -
  define cr sr cp sp cy sy where d: "cr = cos (rr / 2)" "sr = sin (rr / 2)"
    "cp = cos (pp / 2)" "sp = sin (pp / 2)" "cy = cos (yy / 2)" "sy = sin (yy / 2)"
  have one: "cr\<^sup>2 + sr\<^sup>2 = 1" "cp\<^sup>2 + sp\<^sup>2 = 1" "cy\<^sup>2 + sy\<^sup>2 = 1"
    by (simp_all add: d)
  have s_r: "sin rr = 2 * sr * cr" using sin_double [of "rr / 2"] by (simp add: d)
  have c_r: "cos rr = cr\<^sup>2 - sr\<^sup>2" using cos_double [of "rr / 2"] by (simp add: d)
  have s_p: "sin pp = 2 * sp * cp" using sin_double [of "pp / 2"] by (simp add: d)
  have c_p: "cos pp = cp\<^sup>2 - sp\<^sup>2" using cos_double [of "pp / 2"] by (simp add: d)
  have s_y: "sin yy = 2 * sy * cy" using sin_double [of "yy / 2"] by (simp add: d)
  have c_y: "cos yy = cy\<^sup>2 - sy\<^sup>2" using cos_double [of "yy / 2"] by (simp add: d)
  note h = half_angle_products [OF one]
  have pos: "0 < cos pp" using pp by (simp add: cos_gt_zero_pi)
  have "(sin pp)\<^sup>2 < 1"
  proof -
    have "(sin pp)\<^sup>2 = 1 - (cos pp)\<^sup>2" using sin_cos_squared_add [of pp] by linarith
    moreover have "0 < (cos pp)\<^sup>2" using pos by simp
    ultimately show ?thesis by linarith
  qed
  then have small: "\<bar>sin pp\<bar> < 1" by (simp add: abs_square_less_1)
  have roll_eq: "atan2 (2 * ((cr * cp * cy + sr * sp * sy) * (sr * cp * cy - cr * sp * sy)
            + (cr * sp * cy + sr * cp * sy) * (cr * cp * sy - sr * sp * cy)))
          (1 - 2 * ((sr * cp * cy - cr * sp * sy) * (sr * cp * cy - cr * sp * sy)
            + (cr * sp * cy + sr * cp * sy) * (cr * sp * cy + sr * cp * sy))) = rr"
    unfolding h s_r [symmetric] c_r [symmetric] c_p [symmetric]
    using atan2_polar [OF pos rr] by (simp add: mult.commute)
  have yaw_eq: "atan2 (2 * ((cr * cp * cy + sr * sp * sy) * (cr * cp * sy - sr * sp * cy)
            + (sr * cp * cy - cr * sp * sy) * (cr * sp * cy + sr * cp * sy)))
          (1 - 2 * ((cr * sp * cy + sr * cp * sy) * (cr * sp * cy + sr * cp * sy)
            + (cr * cp * sy - sr * sp * cy) * (cr * cp * sy - sr * sp * cy))) = yy"
    unfolding h s_y [symmetric] c_y [symmetric] c_p [symmetric]
    using atan2_polar [OF pos yy] by (simp add: mult.commute)
  have sinp_eq: "2 * ((cr * cp * cy + sr * sp * sy) * (cr * sp * cy + sr * cp * sy)
            - (cr * cp * sy - sr * sp * cy) * (sr * cp * cy - cr * sp * sy)) = sin pp"
    unfolding h s_p ..
  have pitch_eq: "arcsin (sin pp) = pp"
    using pp by (intro arcsin_sin) linarith+
  show ?thesis
    unfolding quaternion_to_euler_def Let_def d [symmetric] roll_eq yaw_eq sinp_eq
    using small pitch_eq by simp
qed

lemma radians_less: "a < b \<Longrightarrow> radians a < radians b"
  unfolding radians_def using pi_gt_zero by (simp add: divide_strict_right_mono)

lemma radians_le: "a \<le> b \<Longrightarrow> radians a \<le> radians b"
  unfolding radians_def using pi_gt_zero by (simp add: divide_right_mono)

text \<open>
  C8. For roll and yaw in \<open>(-180, 180]\<close> degrees and pitch strictly between -90 and 90
  degrees, converting to a quaternion and back returns the three angles, exactly so
  over the reals.
\<close>

theorem euler_round_trip:
  assumes "- 180 < rd" "rd \<le> 180" "- 90 < pd" "pd < 90" "- 180 < yd" "yd \<le> 180"
  shows "(case euler_to_quaternion rd pd yd of (w, x, y, z) \<Rightarrow> quaternion_to_euler w x y z)
           = (rd, pd, yd)"
proof -
  have rr: "- pi < radians rd" "radians rd \<le> pi"
    using radians_less [of "- 180" rd] radians_le [of rd 180] assms by (simp_all add: radians_def)
  have pp: "- (pi / 2) < radians pd" "radians pd < pi / 2"
    using radians_less [of "- 90" pd] radians_less [of pd 90] assms by (simp_all add: radians_def)
  have yy: "- pi < radians yd" "radians yd \<le> pi"
    using radians_less [of "- 180" yd] radians_le [of yd 180] assms by (simp_all add: radians_def)
  show ?thesis
    using quaternion_to_euler_of_half_angles [OF rr pp yy]
    by (simp add: euler_to_quaternion_def Let_def degrees_radians)
qed

theorem euler_round_trip_witness:
  "(- 180 :: real) < 30 \<and> (30 :: real) \<le> 180 \<and> (- 90 :: real) < 45 \<and> (45 :: real) < 90
   \<and> (- 180 :: real) < 180 \<and> (180 :: real) \<le> 180
   \<and> (case euler_to_quaternion 30 45 180 of (w, x, y, z) \<Rightarrow> quaternion_to_euler w x y z)
        = (30, 45, 180)"
  using euler_round_trip [of 30 45 180] by simp

subsection \<open>The covariance invariant\<close>




















lemma dot_cong_left: "(\<And>i. i < n \<Longrightarrow> v i = w i) \<Longrightarrow> dot n v u = dot n w u"
  by (simp add: dot_def)









lemma sum_upto_1: "(\<Sum>k<(1::nat). f k) = (f 0 :: real)"
  by simp






























lemma noise_unchanged:
  "Q (predict s gx gy gz dt) = Q s \<and> R_accel (predict s gx gy gz dt) = R_accel s
   \<and> R_mag (predict s gx gy gz dt) = R_mag s
   \<and> Q (final_state (update_accel s ax ay az)) = Q s
   \<and> R_accel (final_state (update_accel s ax ay az)) = R_accel s
   \<and> R_mag (final_state (update_accel s ax ay az)) = R_mag s
   \<and> Q (final_state (update_magnetometer s mag_angle)) = Q s
   \<and> R_accel (final_state (update_magnetometer s mag_angle)) = R_accel s
   \<and> R_mag (final_state (update_magnetometer s mag_angle)) = R_mag s"
  by (simp add: predict_def update_accel_def update_magnetometer_def Let_def final_state_def
      split: sum.splits)

end
